theory Spec2Isabelle
  imports Complex_Main
begin

section \<open>Data model\<close>

text \<open>
  The repository is a TypeScript prototype (\<^verbatim>\<open>prototyping/frontend_prototype.tsx\<close>) with two
  documents that carry the backend's sync logic as TypeScript pseudo-code
  (\<^verbatim>\<open>prototyping/frontend_integration_guide.md\<close>, \<^verbatim>\<open>docs/proj_description.md\<close>).

  JavaScript numbers are modelled as \<^typ>\<open>int\<close>: every number the modelled functions handle
  is a count of milliseconds (\<^verbatim>\<open>Date.now()\<close>, a playback position, an offset moved in
  steps of 10, 100 and 1000), and doubles are exact on such integers. The one division of the
  source, \<^verbatim>\<open>measureRoundTripTime() / 2\<close>, is modelled over \<^typ>\<open>real\<close>.
\<close>

text \<open>A value of type \<^verbatim>\<open>any\<close>, as far as the wire format carries it (no objects).\<close>

datatype js_value = JUndefined | JNull | JBool bool | JNum int | JStr string

text \<open>
  The \<^verbatim>\<open>sync_command\<close> payload: the object literal that \<^verbatim>\<open>calculateSyncCommand\<close> returns and
  the \<^verbatim>\<open>command: any\<close> that \<^verbatim>\<open>SyncService.handleSyncCommand\<close> destructures.
\<close>

record sync_command =
  action :: js_value
  trackUri :: js_value
  position :: js_value
  timestamp :: js_value

text \<open>
  The \<^verbatim>\<open>playback_state\<close> payload that \<^verbatim>\<open>SyncService.broadcastState\<close> emits; the
  \<^verbatim>\<open>hostState\<close> and \<^verbatim>\<open>clientState\<close> of the pseudo-code are of this shape.
\<close>

record playback_state =
  trackUri :: string
  position :: int
  isPlaying :: bool
  timestamp :: int

text \<open>\<^verbatim>\<open>interface SessionState\<close> of the prototype.\<close>

datatype role = Host | Client

record SessionState =
  sessionId :: "string option"
  role :: "role option"
  isConnected :: bool
  lastSyncTime :: "int option"
  drift :: int
  userOffset :: int

text \<open>
  A \<^verbatim>\<open>NodeJS.Timeout\<close> handle. It is an object, so \<^verbatim>\<open>if (this.syncInterval)\<close> is true
  exactly when the field is not \<^verbatim>\<open>null\<close>.
\<close>

datatype timeout = Timeout nat

text \<open>\<^verbatim>\<open>class SyncService\<close>: its one mutable field.\<close>

record SyncService =
  syncInterval :: "timeout option"

text \<open>
  What the modelled code reads and writes in the JavaScript runtime: the clock behind
  \<^verbatim>\<open>Date.now()\<close>, the lines written by \<^verbatim>\<open>console.log\<close> (message and arguments), and the
  interval timers that \<^verbatim>\<open>setInterval\<close> has scheduled and \<^verbatim>\<open>clearInterval\<close> has not
  cancelled.
\<close>

record runtime =
  clock :: int
  console :: "(string \<times> js_value list) list"
  intervals :: "timeout list"
  next_timeout :: nat

definition Date_now :: "runtime \<Rightarrow> int" where
  "Date_now rt = clock rt"

definition console_log :: "string \<Rightarrow> js_value list \<Rightarrow> runtime \<Rightarrow> runtime" where
  "console_log msg args rt = rt\<lparr>console := console rt @ [(msg, args)]\<rparr>"

definition runtime_at :: "int \<Rightarrow> runtime" where
  "runtime_at t = \<lparr>clock = t, console = [], intervals = [], next_timeout = 0\<rparr>"

section \<open>Backend sync logic: \<^verbatim>\<open>calculateSyncCommand\<close>\<close>

text \<open>
  From \<^verbatim>\<open>frontend_integration_guide.md\<close>, ``Drift Calculation Algorithm''. The four
  \<^verbatim>\<open>const\<close> bindings of the body are definitions of their own, each a function of the
  variables it is computed from; \<open>now\<close> is the value of \<^verbatim>\<open>Date.now()\<close>.
\<close>

definition timeSinceHostReport :: "int \<Rightarrow> playback_state \<Rightarrow> int" where
  "timeSinceHostReport now hostState = now - playback_state.timestamp hostState"

definition expectedHostPosition :: "int \<Rightarrow> playback_state \<Rightarrow> int" where
  "expectedHostPosition now hostState =
     playback_state.position hostState + timeSinceHostReport now hostState"

definition targetClientPosition :: "int \<Rightarrow> playback_state \<Rightarrow> int \<Rightarrow> int" where
  "targetClientPosition now hostState clientOffset =
     expectedHostPosition now hostState + clientOffset"

text \<open>The local \<^verbatim>\<open>drift\<close> (the name \<open>drift\<close> is a field of \<^typ>\<open>SessionState\<close>).\<close>

definition driftMs :: "int \<Rightarrow> playback_state \<Rightarrow> playback_state \<Rightarrow> int \<Rightarrow> int" where
  "driftMs now hostState clientState clientOffset =
     playback_state.position clientState - targetClientPosition now hostState clientOffset"

text \<open>The result is \<^verbatim>\<open>null\<close> (\<open>None\<close>) or the command object.\<close>

definition calculateSyncCommand ::
    "playback_state \<Rightarrow> playback_state \<Rightarrow> int \<Rightarrow> runtime \<Rightarrow> sync_command option" where
  "calculateSyncCommand hostState clientState clientOffset rt =
     (let now = Date_now rt in
      if \<bar>driftMs now hostState clientState clientOffset\<bar> > 1000
      then Some \<lparr>action = JStr ''seek'',
                 trackUri = JStr (playback_state.trackUri hostState),
                 position = JNum (targetClientPosition now hostState clientOffset),
                 timestamp = JNum now\<rparr>
      else None)"



text \<open>
  From \<^verbatim>\<open>proj_description.md\<close>, ``Drift Calculation'': the same computation with half the
  measured round-trip time added to the client's target. \<^verbatim>\<open>measureRoundTripTime\<close> is
  defined nowhere in the repository; its result is the parameter \<open>roundTripTime\<close>. The
  parameter \<^verbatim>\<open>userOffset\<close> is \<open>offset\<close> here (\<open>userOffset\<close> is a field of
  \<^typ>\<open>SessionState\<close>).
\<close>

definition calculateDrift ::
    "playback_state \<Rightarrow> playback_state \<Rightarrow> int \<Rightarrow> int \<Rightarrow> runtime \<Rightarrow> real" where
  "calculateDrift hostState clientState offset roundTripTime rt =
     (let networkLatency = real_of_int roundTripTime / 2;
          expectedClientPosition =
            real_of_int (expectedHostPosition (Date_now rt) hostState)
              + real_of_int offset + networkLatency
      in real_of_int (playback_state.position clientState) - expectedClientPosition)"

text \<open>A snapshot written out field by field, for the examples.\<close>

definition snapshot :: "string \<Rightarrow> int \<Rightarrow> bool \<Rightarrow> int \<Rightarrow> playback_state" where
  "snapshot uri pos playing reportedAt =
     \<lparr>playback_state.trackUri = uri, position = pos, isPlaying = playing,
      timestamp = reportedAt\<rparr>"

section \<open>The prototype client: \<^verbatim>\<open>frontend_prototype.tsx\<close>\<close>

text \<open>
  The state of the running prototype: the \<^verbatim>\<open>session\<close> state of the \<^verbatim>\<open>App\<close> component, the
  \<^verbatim>\<open>sync\<close> service it holds, and the runtime. A method of a service is a function on this
  state that changes what the method writes and nothing else.
\<close>

record App =
  session :: SessionState
  sync :: SyncService
  runtime :: runtime

text \<open>The initial state: \<^verbatim>\<open>useState<SessionState>({...})\<close> and a new \<^verbatim>\<open>SyncService\<close>.\<close>

definition initial_App :: "runtime \<Rightarrow> App" where
  "initial_App rt =
     \<lparr>session = \<lparr>sessionId = None, role = None, isConnected = False, lastSyncTime = None,
                  drift = 0, userOffset = 0\<rparr>,
      sync = \<lparr>syncInterval = None\<rparr>,
      runtime = rt\<rparr>"

subsection \<open>\<^verbatim>\<open>SpotifyService\<close>\<close>

text \<open>
  The three methods that \<^verbatim>\<open>handleSyncCommand\<close> can invoke, as values, and their mock
  bodies: each writes one console line.
\<close>

datatype spotify_call = Play js_value | Pause | Seek js_value

fun SpotifyService :: "spotify_call \<Rightarrow> runtime \<Rightarrow> runtime" where
  "SpotifyService (Play uri) rt = console_log ''SpotifyService: Playing'' [uri] rt"
| "SpotifyService Pause rt = console_log ''SpotifyService: Pausing'' [] rt"
| "SpotifyService (Seek positionMs) rt = console_log ''SpotifyService: Seeking to'' [positionMs] rt"

definition perform :: "spotify_call list \<Rightarrow> App \<Rightarrow> App" where
  "perform calls app = app\<lparr>runtime := fold SpotifyService calls (runtime app)\<rparr>"

subsection \<open>\<^verbatim>\<open>SyncService\<close>\<close>

text \<open>
  \<^verbatim>\<open>handleSyncCommand\<close>: the \<^verbatim>\<open>SpotifyService\<close> methods that the \<^verbatim>\<open>switch\<close> awaits, in
  order. The \<^verbatim>\<open>switch\<close> compares with \<^verbatim>\<open>===\<close> and has no \<^verbatim>\<open>default\<close>.
\<close>

definition handleSyncCommand :: "sync_command \<Rightarrow> spotify_call list" where
  "handleSyncCommand command =
     (if action command = JStr ''play''
        then [Play (sync_command.trackUri command), Seek (sync_command.position command)]
      else if action command = JStr ''pause'' then [Pause]
      else if action command = JStr ''seek'' then [Seek (sync_command.position command)]
      else [])"

text \<open>
  \<^verbatim>\<open>setInterval\<close> hands out a fresh handle and schedules it; \<^verbatim>\<open>clearInterval\<close> cancels a
  handle. The callback and its period (\<^verbatim>\<open>broadcastState\<close>, every 120000 ms) do not run in
  this model.
\<close>

definition setInterval :: "runtime \<Rightarrow> timeout \<times> runtime" where
  "setInterval rt =
     (Timeout (next_timeout rt),
      rt\<lparr>intervals := intervals rt @ [Timeout (next_timeout rt)],
         next_timeout := next_timeout rt + 1\<rparr>)"

definition clearInterval :: "timeout \<Rightarrow> runtime \<Rightarrow> runtime" where
  "clearInterval t rt = rt\<lparr>intervals := removeAll t (intervals rt)\<rparr>"

text \<open>\<^verbatim>\<open>startHostSync\<close>; \<^verbatim>\<open>watchForSongChanges\<close> has an empty body.\<close>

definition startHostSync :: "App \<Rightarrow> App" where
  "startHostSync app =
     (let rt1 = console_log ''SyncService: Starting host sync'' [] (runtime app);
          (t, rt2) = setInterval rt1
      in app\<lparr>sync := (sync app)\<lparr>syncInterval := Some t\<rparr>, runtime := rt2\<rparr>)"

definition stopSync :: "App \<Rightarrow> App" where
  "stopSync app =
     (case syncInterval (sync app) of
        Some t \<Rightarrow> app\<lparr>runtime := clearInterval t (runtime app),
                      sync := (sync app)\<lparr>syncInterval := None\<rparr>\<rparr>
      | None \<Rightarrow> app)"

subsection \<open>\<^verbatim>\<open>SessionService.updateOffset\<close> and \<^verbatim>\<open>handleOffsetChange\<close>\<close>

text \<open>\<^verbatim>\<open>updateOffset\<close> writes a console line; its request to the backend is a \<^verbatim>\<open>TODO\<close>.\<close>

definition updateOffset :: "int \<Rightarrow> App \<Rightarrow> App" where
  "updateOffset offset app =
     app\<lparr>runtime := console_log ''SessionService: Updating offset'' [JNum offset] (runtime app)\<rparr>"

definition handleOffsetChange :: "int \<Rightarrow> App \<Rightarrow> App" where
  "handleOffsetChange delta app =
     (let newOffset = userOffset (session app) + delta
      in updateOffset newOffset (app\<lparr>session := (session app)\<lparr>userOffset := newOffset\<rparr>\<rparr>))"

section \<open>Properties of \<^verbatim>\<open>calculateSyncCommand\<close>\<close>

lemma calculateDrift_driftMs:
  "calculateDrift hostState clientState offset roundTripTime rt =
     real_of_int (driftMs (clock rt) hostState clientState offset)
       - real_of_int roundTripTime / 2"
  by (simp add: calculateDrift_def driftMs_def targetClientPosition_def
      expectedHostPosition_def timeSinceHostReport_def Date_now_def Let_def)

lemmas sync_defs =
  calculateSyncCommand_def driftMs_def targetClientPosition_def expectedHostPosition_def
  timeSinceHostReport_def Date_now_def Let_def

lemmas example_defs = snapshot_def runtime_at_def

text \<open>
  C5, as the specification states it: the drift is the client's position minus the sum of the
  expected host position and the client's offset. \<^verbatim>\<open>calculateDrift\<close> computes another
  value: with a measured round trip of 100 ms it subtracts 50 more, so that for the host at
  45000 reported at time 0 and the client at 45200, at time 5000 and offset 0, it returns -4850
  where the stated formula gives -4800.
\<close>

theorem drift_latency_counterexample:
  "calculateDrift (snapshot ''A'' 45000 True 0) (snapshot ''A'' 45200 True 5000) 0 100
     (runtime_at 5000) = - 4850
   \<and> playback_state.position (snapshot ''A'' 45200 True 5000)
       - (expectedHostPosition 5000 (snapshot ''A'' 45000 True 0) + 0) = - 4800"
  by (simp add: calculateDrift_def sync_defs example_defs)

text \<open>
  C5, amended: in \<^verbatim>\<open>calculateSyncCommand\<close> the drift is the client's position minus the sum
  of the expected host position and the client's offset, the expected host position being the
  host's position plus the time since its report; a positive drift means that the client is
  ahead of its target; and the result is a seek to the target exactly when the drift's
  magnitude is above 1000. \<^verbatim>\<open>calculateDrift\<close> returns that drift minus half the measured
  round-trip time. For a playing host that reported position 45000 at time \<open>T\<close> and a client at
  45200, evaluated at \<open>T + 5000\<close> with offset 0, the drift is -4800 and the result is a seek to
  50000.
\<close>

theorem drift_computation:
  "expectedHostPosition now hostState
     = playback_state.position hostState + (now - playback_state.timestamp hostState)
   \<and> driftMs now hostState clientState clientOffset
     = playback_state.position clientState - (expectedHostPosition now hostState + clientOffset)
   \<and> driftMs now hostState clientState clientOffset
     = playback_state.position clientState
         - (playback_state.position hostState + (now - playback_state.timestamp hostState)
             + clientOffset)
   \<and> (0 < driftMs now hostState clientState clientOffset)
     = (playback_state.position hostState + (now - playback_state.timestamp hostState)
          + clientOffset < playback_state.position clientState)
   \<and> calculateSyncCommand hostState clientState clientOffset rt
     = (if 1000 < \<bar>driftMs (clock rt) hostState clientState clientOffset\<bar>
        then Some \<lparr>action = JStr ''seek'',
                   trackUri = JStr (playback_state.trackUri hostState),
                   position = JNum (expectedHostPosition (clock rt) hostState + clientOffset),
                   timestamp = JNum (clock rt)\<rparr>
        else None)
   \<and> calculateDrift hostState clientState clientOffset roundTripTime rt
     = real_of_int (driftMs (clock rt) hostState clientState clientOffset)
         - real_of_int roundTripTime / 2
   \<and> driftMs (T + 5000) (snapshot ''A'' 45000 True T) (snapshot ''A'' 45200 True (T + 5000)) 0
     = - 4800
   \<and> calculateSyncCommand (snapshot ''A'' 45000 True T)
        (snapshot ''A'' 45200 True (T + 5000)) 0 (runtime_at (T + 5000))
     = Some \<lparr>action = JStr ''seek'', trackUri = JStr ''A'', position = JNum 50000,
             timestamp = JNum (T + 5000)\<rparr>"
  by (simp add: calculateDrift_def sync_defs example_defs)

theorem drift_computation_witness:
  "driftMs 5000 (snapshot ''A'' 45000 True 0) (snapshot ''A'' 45200 True 5000) 150 = - 4950
   \<and> calculateSyncCommand (snapshot ''A'' 45000 True 0) (snapshot ''A'' 45200 True 5000) 150
        (runtime_at 5000)
     = Some \<lparr>action = JStr ''seek'', trackUri = JStr ''A'', position = JNum 50150,
             timestamp = JNum 5000\<rparr>
   \<and> calculateSyncCommand (snapshot ''A'' 45000 True 0) (snapshot ''A'' 50200 True 5000) 150
        (runtime_at 5000) = None
   \<and> calculateDrift (snapshot ''A'' 45000 True 0) (snapshot ''A'' 45200 True 5000) 150 100
        (runtime_at 5000) = - 5000"
  using drift_computation [of 5000 "snapshot ''A'' 45000 True 0"
      "snapshot ''A'' 45200 True 5000" 150 "runtime_at 5000" 100 0]
    drift_computation [of 5000 "snapshot ''A'' 45000 True 0"
      "snapshot ''A'' 50200 True 5000" 150 "runtime_at 5000" 100 0]
  by (simp add: example_defs)

text \<open>
  C1, as the specification states it: for snapshots on the same track with the same play
  state, a drift of magnitude at least 500 and below 3000 yields a seek to the target
  position. The code does not: with the host at 45000 reported at time 0 and the client at
  49400, evaluated at time 5000, the drift is -600 and no command results.
\<close>

theorem three_bands_counterexample:
  "playback_state.trackUri (snapshot ''A'' 45000 True 0)
     = playback_state.trackUri (snapshot ''A'' 49400 True 5000)
   \<and> isPlaying (snapshot ''A'' 45000 True 0) = isPlaying (snapshot ''A'' 49400 True 5000)
   \<and> driftMs 5000 (snapshot ''A'' 45000 True 0) (snapshot ''A'' 49400 True 5000) 0 = - 600
   \<and> calculateSyncCommand (snapshot ''A'' 45000 True 0) (snapshot ''A'' 49400 True 5000) 0
        (runtime_at 5000) = None"
  by (simp add: sync_defs example_defs)

text \<open>
  C1, amended: the evaluation has two bands, whatever the tracks and play states of the two
  snapshots. With the drift being the client's position minus the target (the host's position
  plus the time since its report plus the offset), a drift of magnitude at most 1000 yields no
  command, and a drift of magnitude above 1000 yields a seek to the target, carrying the
  host's track and the time of the evaluation.
\<close>

theorem calculateSyncCommand_two_bands:
  "calculateSyncCommand hostState clientState clientOffset rt =
     (if \<bar>playback_state.position clientState
            - (playback_state.position hostState
                + (clock rt - playback_state.timestamp hostState) + clientOffset)\<bar> \<le> 1000
      then None
      else Some \<lparr>action = JStr ''seek'',
                 trackUri = JStr (playback_state.trackUri hostState),
                 position = JNum (playback_state.position hostState
                   + (clock rt - playback_state.timestamp hostState) + clientOffset),
                 timestamp = JNum (clock rt)\<rparr>)"
  by (simp add: sync_defs)

theorem calculateSyncCommand_two_bands_witness:
  "calculateSyncCommand (snapshot ''A'' 45000 True 0) (snapshot ''A'' 49000 True 5000) 0
     (runtime_at 5000) = None
   \<and> calculateSyncCommand (snapshot ''A'' 45000 True 0) (snapshot ''A'' 48999 True 5000) 0
     (runtime_at 5000)
     = Some \<lparr>action = JStr ''seek'', trackUri = JStr ''A'', position = JNum 50000,
             timestamp = JNum 5000\<rparr>"
  using calculateSyncCommand_two_bands
          [of "snapshot ''A'' 45000 True 0" "snapshot ''A'' 49000 True 5000" 0 "runtime_at 5000"]
        calculateSyncCommand_two_bands
          [of "snapshot ''A'' 45000 True 0" "snapshot ''A'' 48999 True 5000" 0 "runtime_at 5000"]
  by (simp add: example_defs)

lemma calculateSyncCommand_action:
  "map_option action (calculateSyncCommand hostState clientState clientOffset rt) =
     (if 1000 < \<bar>driftMs (Date_now rt) hostState clientState clientOffset\<bar>
      then Some (JStr ''seek'') else None)"
  by (simp add: calculateSyncCommand_def Let_def)

lemma calculateSyncCommand_reads:
  assumes "playback_state.position hostState1 = playback_state.position hostState2"
    and "playback_state.timestamp hostState1 = playback_state.timestamp hostState2"
    and "playback_state.trackUri hostState1 = playback_state.trackUri hostState2"
    and "playback_state.position clientState1 = playback_state.position clientState2"
    and "clock rt1 = clock rt2"
  shows "calculateSyncCommand hostState1 clientState1 clientOffset rt1
           = calculateSyncCommand hostState2 clientState2 clientOffset rt2"
  using assms by (simp add: sync_defs)

text \<open>
  C2, as the specification states it: when the two snapshots are on different tracks the
  action is \<^verbatim>\<open>switch_track\<close>, never \<^verbatim>\<open>seek\<close>, and the drift is not evaluated. The code
  does not compare the tracks: with the host on track A and the client on track B the drift
  of -4800 yields a seek, and with the client at the target position it yields no command.
\<close>

theorem track_mismatch_counterexample:
  "playback_state.trackUri (snapshot ''A'' 45000 True 0)
     \<noteq> playback_state.trackUri (snapshot ''B'' 45200 True 5000)
   \<and> calculateSyncCommand (snapshot ''A'' 45000 True 0) (snapshot ''B'' 45200 True 5000) 0
        (runtime_at 5000)
       = Some \<lparr>action = JStr ''seek'', trackUri = JStr ''A'', position = JNum 50000,
               timestamp = JNum 5000\<rparr>
   \<and> calculateSyncCommand (snapshot ''A'' 45000 True 0) (snapshot ''B'' 50000 True 5000) 0
        (runtime_at 5000) = None"
  by (simp add: sync_defs example_defs)

text \<open>
  C2, amended: when the two snapshots are on different tracks, the evaluation is the one it
  would be with the client on the host's track: the drift is evaluated, and the action is
  \<^verbatim>\<open>seek\<close> when the drift's magnitude is above 1000 and there is no command otherwise. The
  action is never \<^verbatim>\<open>switch_track\<close>.
\<close>

theorem track_mismatch_evaluates_drift:
  assumes "playback_state.trackUri hostState \<noteq> playback_state.trackUri clientState"
  shows "calculateSyncCommand hostState clientState clientOffset rt
           = calculateSyncCommand hostState
               (clientState\<lparr>playback_state.trackUri := playback_state.trackUri hostState\<rparr>)
               clientOffset rt
         \<and> map_option action (calculateSyncCommand hostState clientState clientOffset rt)
           = (if 1000 < \<bar>driftMs (Date_now rt) hostState clientState clientOffset\<bar>
              then Some (JStr ''seek'') else None)
         \<and> map_option action (calculateSyncCommand hostState clientState clientOffset rt)
           \<noteq> Some (JStr ''switch_track'')"
proof -
  have same: "calculateSyncCommand hostState clientState clientOffset rt
      = calculateSyncCommand hostState
          (clientState\<lparr>playback_state.trackUri := playback_state.trackUri hostState\<rparr>)
          clientOffset rt"
    by (rule calculateSyncCommand_reads) simp_all
  have act: "map_option action (calculateSyncCommand hostState clientState clientOffset rt)
      = (if 1000 < \<bar>driftMs (Date_now rt) hostState clientState clientOffset\<bar>
         then Some (JStr ''seek'') else None)"
    by (rule calculateSyncCommand_action)
  have "map_option action (calculateSyncCommand hostState clientState clientOffset rt)
      \<noteq> Some (JStr ''switch_track'')"
    unfolding act by simp
  with same act show ?thesis by blast
qed

theorem track_mismatch_evaluates_drift_witness:
  "playback_state.trackUri (snapshot ''A'' 45000 True 0)
     \<noteq> playback_state.trackUri (snapshot ''B'' 45200 True 5000)
   \<and> map_option action
        (calculateSyncCommand (snapshot ''A'' 45000 True 0) (snapshot ''B'' 45200 True 5000) 0
           (runtime_at 5000)) = Some (JStr ''seek'')"
proof -
  have h: "playback_state.trackUri (snapshot ''A'' 45000 True 0)
      \<noteq> playback_state.trackUri (snapshot ''B'' 45200 True 5000)"
    by (simp add: snapshot_def)
  have d: "\<bar>driftMs (Date_now (runtime_at 5000)) (snapshot ''A'' 45000 True 0)
           (snapshot ''B'' 45200 True 5000) 0\<bar> = 4800"
    by (simp add: sync_defs example_defs)
  have "map_option action
          (calculateSyncCommand (snapshot ''A'' 45000 True 0) (snapshot ''B'' 45200 True 5000) 0
             (runtime_at 5000))
        = (if (1000::int) < 4800 then Some (JStr ''seek'') else None)"
    using track_mismatch_evaluates_drift [OF h, of 0 "runtime_at 5000", THEN conjunct2,
        THEN conjunct1]
    unfolding d .
  also have "\<dots> = Some (JStr ''seek'')"
    by simp
  finally show ?thesis
    using h by (rule_tac conjI)
qed

text \<open>
  C3, as the specification states it: when the play states of the two snapshots differ, the
  evaluation emits \<^verbatim>\<open>play\<close> or \<^verbatim>\<open>pause\<close>, following the host. The code does not read the
  play state: a playing host with a paused client at the target position yields no command,
  and a paused host with a playing client 4800 ms behind yields a seek.
\<close>

theorem play_state_mismatch_counterexample:
  "isPlaying (snapshot ''A'' 45000 True 0) \<noteq> isPlaying (snapshot ''A'' 50000 False 5000)
   \<and> calculateSyncCommand (snapshot ''A'' 45000 True 0) (snapshot ''A'' 50000 False 5000) 0
        (runtime_at 5000) = None
   \<and> isPlaying (snapshot ''A'' 45000 False 0) \<noteq> isPlaying (snapshot ''A'' 45200 True 5000)
   \<and> calculateSyncCommand (snapshot ''A'' 45000 False 0) (snapshot ''A'' 45200 True 5000) 0
        (runtime_at 5000)
       = Some \<lparr>action = JStr ''seek'', trackUri = JStr ''A'', position = JNum 50000,
               timestamp = JNum 5000\<rparr>"
  by (simp add: sync_defs example_defs)

text \<open>
  C3, amended: when the play states of the two snapshots differ, the evaluation is the one it
  would be with any other play states: it depends on the positions, the report time, the
  offset and the clock only. The action is \<^verbatim>\<open>seek\<close> when the drift's magnitude is above 1000
  and there is no command otherwise; it is never \<^verbatim>\<open>play\<close> or \<^verbatim>\<open>pause\<close>.
\<close>

theorem play_state_mismatch_evaluates_drift:
  assumes "isPlaying hostState \<noteq> isPlaying clientState"
  shows "calculateSyncCommand hostState clientState clientOffset rt
           = calculateSyncCommand (hostState\<lparr>isPlaying := p\<rparr>) (clientState\<lparr>isPlaying := q\<rparr>)
               clientOffset rt
         \<and> map_option action (calculateSyncCommand hostState clientState clientOffset rt)
           = (if 1000 < \<bar>driftMs (Date_now rt) hostState clientState clientOffset\<bar>
              then Some (JStr ''seek'') else None)
         \<and> map_option action (calculateSyncCommand hostState clientState clientOffset rt)
           \<noteq> Some (JStr ''play'')
         \<and> map_option action (calculateSyncCommand hostState clientState clientOffset rt)
           \<noteq> Some (JStr ''pause'')"
proof -
  have same: "calculateSyncCommand hostState clientState clientOffset rt
      = calculateSyncCommand (hostState\<lparr>isPlaying := p\<rparr>) (clientState\<lparr>isPlaying := q\<rparr>)
          clientOffset rt"
    by (rule calculateSyncCommand_reads) simp_all
  have act: "map_option action (calculateSyncCommand hostState clientState clientOffset rt)
      = (if 1000 < \<bar>driftMs (Date_now rt) hostState clientState clientOffset\<bar>
         then Some (JStr ''seek'') else None)"
    by (rule calculateSyncCommand_action)
  have "map_option action (calculateSyncCommand hostState clientState clientOffset rt)
      \<noteq> Some (JStr ''play'')"
    and "map_option action (calculateSyncCommand hostState clientState clientOffset rt)
      \<noteq> Some (JStr ''pause'')"
    unfolding act by simp_all
  with same act show ?thesis by blast
qed

theorem play_state_mismatch_evaluates_drift_witness:
  "isPlaying (snapshot ''A'' 45000 False 0) \<noteq> isPlaying (snapshot ''A'' 45200 True 5000)
   \<and> map_option action
        (calculateSyncCommand (snapshot ''A'' 45000 False 0) (snapshot ''A'' 45200 True 5000) 0
           (runtime_at 5000)) = Some (JStr ''seek'')"
proof -
  have h: "isPlaying (snapshot ''A'' 45000 False 0) \<noteq> isPlaying (snapshot ''A'' 45200 True 5000)"
    by (simp add: snapshot_def)
  have d: "\<bar>driftMs (Date_now (runtime_at 5000)) (snapshot ''A'' 45000 False 0)
           (snapshot ''A'' 45200 True 5000) 0\<bar> = 4800"
    by (simp add: sync_defs example_defs)
  have "map_option action
          (calculateSyncCommand (snapshot ''A'' 45000 False 0) (snapshot ''A'' 45200 True 5000) 0
             (runtime_at 5000))
        = (if (1000::int) < 4800 then Some (JStr ''seek'') else None)"
    using play_state_mismatch_evaluates_drift [OF h, of 0 "runtime_at 5000", THEN conjunct2,
        THEN conjunct1]
    unfolding d .
  also have "\<dots> = Some (JStr ''seek'')"
    by simp
  finally show ?thesis
    using h by (rule_tac conjI)
qed

text \<open>
  C4, as the specification states it: for a host snapshot that is not playing, the expected
  host position is the reported position, whatever time has passed since the report. The code
  projects every host snapshot forward: a host paused at 45000 and reported at time 0 is
  expected at 50000 at time 5000, and a client paused at 45000 is sent a seek to 50000.
\<close>

theorem paused_host_counterexample:
  "\<not> isPlaying (snapshot ''A'' 45000 False 0)
   \<and> playback_state.position (snapshot ''A'' 45000 False 0) = 45000
   \<and> expectedHostPosition 5000 (snapshot ''A'' 45000 False 0) = 50000
   \<and> calculateSyncCommand (snapshot ''A'' 45000 False 0) (snapshot ''A'' 45000 False 5000) 0
        (runtime_at 5000)
       = Some \<lparr>action = JStr ''seek'', trackUri = JStr ''A'', position = JNum 50000,
               timestamp = JNum 5000\<rparr>"
  by (simp add: sync_defs example_defs)

text \<open>
  C4, amended: for a host snapshot that is not playing, as for one that is, the expected host
  position is the reported position plus the time elapsed since the report; it equals the
  reported position only when the evaluation happens at the time of the report.
\<close>

theorem paused_host_projected:
  assumes "\<not> isPlaying hostState"
  shows "expectedHostPosition now hostState
           = playback_state.position hostState + (now - playback_state.timestamp hostState)
         \<and> expectedHostPosition now hostState
           = expectedHostPosition now (hostState\<lparr>isPlaying := True\<rparr>)
         \<and> (expectedHostPosition now hostState = playback_state.position hostState)
           = (now = playback_state.timestamp hostState)"
  by (auto simp add: expectedHostPosition_def timeSinceHostReport_def)

theorem paused_host_projected_witness:
  "\<not> isPlaying (snapshot ''A'' 45000 False 0)
   \<and> expectedHostPosition 5000 (snapshot ''A'' 45000 False 0) = 45000 + (5000 - 0)"
proof -
  have h: "\<not> isPlaying (snapshot ''A'' 45000 False 0)"
    by (simp add: snapshot_def)
  from paused_host_projected [OF h, of 5000] h show ?thesis
    by (simp add: snapshot_def)
qed




section \<open>Properties of the prototype client\<close>

lemma handleOffsetChange_userOffset:
  "userOffset (session (handleOffsetChange delta app)) = userOffset (session app) + delta"
  by (simp add: handleOffsetChange_def updateOffset_def Let_def)

lemma handleOffsetChange_forwards:
  "last (console (runtime (handleOffsetChange delta app)))
     = (''SessionService: Updating offset'', [JNum (userOffset (session app) + delta)])"
  by (simp add: handleOffsetChange_def updateOffset_def console_log_def Let_def)


text \<open>
  C7: pressing \<^verbatim>\<open>+1s\<close> six times from the initial state stores the offset 6000, and the
  sixth press passes 6000 to \<^verbatim>\<open>updateOffset\<close>, which logs it as it is; pressing \<^verbatim>\<open>-1s\<close>
  six times stores -6000. Nothing on the way bounds the value to the range from -5000 to 5000.
\<close>

theorem handleOffsetChange_leaves_range:
  "userOffset (session ((handleOffsetChange 1000 ^^ 6) (initial_App (runtime_at 0)))) = 6000
   \<and> last (console (runtime ((handleOffsetChange 1000 ^^ 6) (initial_App (runtime_at 0)))))
       = (''SessionService: Updating offset'', [JNum 6000])
   \<and> userOffset (session ((handleOffsetChange (- 1000) ^^ 6) (initial_App (runtime_at 0))))
       = - 6000"
  by (simp add: numeral_eq_Suc handleOffsetChange_userOffset handleOffsetChange_forwards
      initial_App_def)




lemma SpotifyService_console:
  "length (console (SpotifyService call rt)) = Suc (length (console rt))"
  by (cases call) (simp_all add: console_log_def)

lemma fold_SpotifyService_console:
  "length (console (fold SpotifyService calls rt)) = length (console rt) + length calls"
  by (induction calls arbitrary: rt) (simp_all add: SpotifyService_console)

text \<open>
  Every method of \<^verbatim>\<open>SpotifyService\<close> writes a console line, so the state is unchanged
  exactly when no method was invoked.
\<close>

lemma perform_unchanged:
  "(perform calls app = app) = (calls = [])"
proof
  assume "perform calls app = app"
  then have "length (console (runtime (perform calls app))) = length (console (runtime app))"
    by simp
  then show "calls = []"
    by (simp add: perform_def fold_SpotifyService_console)
next
  assume "calls = []"
  then show "perform calls app = app"
    by (simp add: perform_def)
qed

text \<open>
  C9: for a command whose action is \<^verbatim>\<open>switch_track\<close>, or any value other than \<^verbatim>\<open>play\<close>,
  \<^verbatim>\<open>pause\<close> and \<^verbatim>\<open>seek\<close>, \<^verbatim>\<open>handleSyncCommand\<close> invokes no method of \<^verbatim>\<open>SpotifyService\<close>,
  and the state of the client is the one from before the command.
\<close>

theorem handleSyncCommand_drops_unknown:
  assumes "action command \<noteq> JStr ''play''" and "action command \<noteq> JStr ''pause''"
    and "action command \<noteq> JStr ''seek''"
  shows "handleSyncCommand command = [] \<and> perform (handleSyncCommand command) app = app"
  using assms by (simp add: handleSyncCommand_def perform_def)

theorem handleSyncCommand_drops_unknown_witness:
  "handleSyncCommand
     \<lparr>action = JStr ''switch_track'', trackUri = JStr ''spotify:track:xxx'',
      position = JNum 0, timestamp = JNum 5000\<rparr> = []
   \<and> perform (handleSyncCommand
        \<lparr>action = JStr ''switch_track'', trackUri = JStr ''spotify:track:xxx'',
         position = JNum 0, timestamp = JNum 5000\<rparr>) (initial_App (runtime_at 5000))
     = initial_App (runtime_at 5000)
   \<and> handleSyncCommand
       \<lparr>action = JUndefined, trackUri = JUndefined, position = JUndefined,
        timestamp = JUndefined\<rparr> = []"
proof -
  have "handleSyncCommand
      \<lparr>action = JStr ''switch_track'', trackUri = JStr ''spotify:track:xxx'',
       position = JNum 0, timestamp = JNum 5000\<rparr> = []
    \<and> perform (handleSyncCommand
        \<lparr>action = JStr ''switch_track'', trackUri = JStr ''spotify:track:xxx'',
         position = JNum 0, timestamp = JNum 5000\<rparr>) (initial_App (runtime_at 5000))
      = initial_App (runtime_at 5000)"
    by (rule handleSyncCommand_drops_unknown) simp_all
  moreover have "handleSyncCommand
      \<lparr>action = JUndefined, trackUri = JUndefined, position = JUndefined,
       timestamp = JUndefined\<rparr> = []"
    using handleSyncCommand_drops_unknown
      [of "\<lparr>action = JUndefined, trackUri = JUndefined, position = JUndefined,
            timestamp = JUndefined\<rparr>"]
    by simp
  ultimately show ?thesis by blast
qed

lemma stopSync_syncInterval:
  "syncInterval (sync (stopSync app)) = None"
  by (simp add: stopSync_def split: option.split)

text \<open>
  C10: after \<^verbatim>\<open>stopSync\<close> the field \<^verbatim>\<open>syncInterval\<close> is \<^verbatim>\<open>null\<close>; a second call in a row
  leaves the state that the first call left; and on a service that never started the host
  sync, the call changes nothing.
\<close>

theorem stopSync_idempotent:
  "syncInterval (sync (stopSync app)) = None
   \<and> stopSync (stopSync app) = stopSync app
   \<and> stopSync (initial_App rt) = initial_App rt"
proof -
  have "stopSync (stopSync app) = stopSync app"
    using stopSync_syncInterval [of app] by (simp add: stopSync_def [of "stopSync app"])
  moreover have "stopSync (initial_App rt) = initial_App rt"
    by (simp add: stopSync_def initial_App_def)
  ultimately show ?thesis
    by (simp add: stopSync_syncInterval)
qed

theorem stopSync_idempotent_witness:
  "syncInterval (sync (startHostSync (initial_App (runtime_at 0)))) = Some (Timeout 0)
   \<and> intervals (runtime (startHostSync (initial_App (runtime_at 0)))) = [Timeout 0]
   \<and> syncInterval (sync (stopSync (startHostSync (initial_App (runtime_at 0))))) = None
   \<and> intervals (runtime (stopSync (startHostSync (initial_App (runtime_at 0))))) = []
   \<and> stopSync (stopSync (startHostSync (initial_App (runtime_at 0))))
       = stopSync (startHostSync (initial_App (runtime_at 0)))"
proof -
  have start: "syncInterval (sync (startHostSync (initial_App (runtime_at 0)))) = Some (Timeout 0)
      \<and> intervals (runtime (startHostSync (initial_App (runtime_at 0)))) = [Timeout 0]"
    by (simp add: startHostSync_def setInterval_def console_log_def initial_App_def
        runtime_at_def Let_def)
  then have "intervals (runtime (stopSync (startHostSync (initial_App (runtime_at 0))))) = []"
    by (simp add: stopSync_def clearInterval_def)
  with start stopSync_idempotent [of "startHostSync (initial_App (runtime_at 0))"]
  show ?thesis by blast
qed

end
